theory Spec2Isabelle
  imports Main "HOL-Library.Sublist"
begin

section \<open>JavaScript values of the command line\<close>

text \<open>
  A raw option value is what the argument parser leaves in \<open>CommandLineOptions\<close>:
  a string, a boolean, \<open>null\<close>, \<open>undefined\<close> or an array of strings.
  Reading a key that the mapping does not have gives \<open>undefined\<close>, as a property
  read of a JavaScript object does.
\<close>

datatype CommandLineInput =
    JUndefined
  | JNull
  | JBool bool
  | JStr string
  | JArr "string list"

type_synonym CommandLineOptions = "string \<rightharpoonup> CommandLineInput"

type_synonym CommandLineInputs = "string list"

definition opt :: "CommandLineOptions \<Rightarrow> string \<Rightarrow> CommandLineInput" where
  \<comment> \<open>\<open>options[key]\<close>\<close>
  "opt options key = (case options key of None \<Rightarrow> JUndefined | Some v \<Rightarrow> v)"

datatype jstype = TyUndefined | TyObject | TyBoolean | TyString

fun typeof :: "CommandLineInput \<Rightarrow> jstype" where
  "typeof JUndefined = TyUndefined"
| "typeof JNull = TyObject"
| "typeof (JBool b) = TyBoolean"
| "typeof (JStr s) = TyString"
| "typeof (JArr xs) = TyObject"

fun truthy :: "CommandLineInput \<Rightarrow> bool" where
  \<comment> \<open>the condition of \<open>v ? a : b\<close>, and \<open>Boolean(v)\<close>\<close>
  "truthy JUndefined = False"
| "truthy JNull = False"
| "truthy (JBool b) = b"
| "truthy (JStr s) = (s \<noteq> [])"
| "truthy (JArr xs) = True"

fun join :: "string \<Rightarrow> string list \<Rightarrow> string" where
  \<comment> \<open>\<open>Array.prototype.join\<close> on an array of strings\<close>
  "join sep [] = []"
| "join sep [x] = x"
| "join sep (x # y # ys) = x @ sep @ join sep (y # ys)"

fun String :: "CommandLineInput \<Rightarrow> string" where
  \<comment> \<open>\<open>String(v)\<close>\<close>
  "String JUndefined = ''undefined''"
| "String JNull = ''null''"
| "String (JBool b) = (if b then ''true'' else ''false'')"
| "String (JStr s) = s"
| "String (JArr xs) = join '','' xs"

subsection \<open>Numbers and their decimal text\<close>

text \<open>
  Ports are integers. A template literal \<open>`${n}`\<close> writes an integer in decimal, with a
  leading minus sign when it is negative.
\<close>

definition digit :: "nat \<Rightarrow> char" where
  "digit d = ''0123456789'' ! (d mod 10)"

fun show_nat :: "nat \<Rightarrow> string" where
  "show_nat n = (if n < 10 then [digit n] else show_nat (n div 10) @ [digit (n mod 10)])"

declare show_nat.simps [simp del]

definition num2str :: "int \<Rightarrow> string" where
  "num2str i = (if i < 0 then CHR ''-'' # show_nat (nat (- i)) else show_nat (nat i))"

text \<open>
  The decimal reading that \<open>str2num\<close> below relies on: an optional minus sign, then one
  or more decimal digits and nothing else.
\<close>

definition digit_of :: "char \<Rightarrow> nat option" where
  "digit_of c = map_of (zip ''0123456789'' [0 ..< 10]) c"

fun parse_digits :: "nat \<Rightarrow> string \<Rightarrow> nat option" where
  "parse_digits acc [] = Some acc"
| "parse_digits acc (c # cs) =
     (case digit_of c of None \<Rightarrow> None | Some d \<Rightarrow> parse_digits (10 * acc + d) cs)"

definition parse_int10 :: "string \<Rightarrow> int option" where
  "parse_int10 s =
     (case s of
        [] \<Rightarrow> None
      | c # cs \<Rightarrow>
          if c = CHR ''-'' then
            (if cs = [] then None else map_option (\<lambda>n. - int n) (parse_digits 0 cs))
          else map_option int (parse_digits 0 s))"

definition str2num :: "CommandLineInput \<Rightarrow> int \<Rightarrow> int" where
  \<comment> \<open>Modelled from the spec: \<open>str2num\<close> of \<open>@ionic/cli-framework/utils/string\<close>, whose
      body is not among the sources. The spec: parse the given value as a base-10
      integer; on absence or parse failure, use the named default constant.\<close>
  "str2num v defaultValue =
     (case v of
        JStr s \<Rightarrow> (case parse_int10 s of Some n \<Rightarrow> n | None \<Rightarrow> defaultValue)
      | _ \<Rightarrow> defaultValue)"

section \<open>Option normalisation: \<open>cliOptionsToServeOptions\<close>\<close>

text \<open>
  The constants that \<open>commands/serve.ts\<close> imports from \<open>lib/serve\<close>. Their values are
  not among the sources, so every definition takes them as a parameter.
\<close>

record lib_serve =
  BIND_ALL_ADDRESS :: string
  DEFAULT_DEV_LOGGER_PORT :: int
  DEFAULT_LIVERELOAD_PORT :: int
  DEFAULT_SERVER_PORT :: int
  IONIC_LAB_URL :: string

record ServeOptions =
  address :: string
  port :: int
  livereloadPort :: int
  notificationPort :: int
  consolelogs :: bool
  serverlogs :: bool
  livereload :: bool
  proxy :: bool
  lab :: bool
  "open" :: bool
  browser :: "string option"
  browserOption :: "string option"
  basicAuth :: "(string \<times> string) option"
  env :: "string option"
  devapp :: bool
  externalAddressRequired :: bool
  iscordovaserve :: bool

definition cliOptionsToServeOptions :: "lib_serve \<Rightarrow> CommandLineOptions \<Rightarrow> ServeOptions" where
  "cliOptionsToServeOptions K options =
     (let address = (if truthy (opt options ''address'') then String (opt options ''address'')
                     else BIND_ALL_ADDRESS K);
          port = str2num (opt options ''port'') (DEFAULT_SERVER_PORT K);
          livereloadPort = str2num (opt options ''livereload-port'') (DEFAULT_LIVERELOAD_PORT K);
          notificationPort = str2num (opt options ''dev-logger-port'') (DEFAULT_DEV_LOGGER_PORT K)
      in \<lparr> address = address,
           port = port,
           livereloadPort = livereloadPort,
           notificationPort = notificationPort,
           consolelogs = (if truthy (opt options ''consolelogs'') then True else False),
           serverlogs = (if truthy (opt options ''serverlogs'') then True else False),
           livereload = (if typeof (opt options ''livereload'') = TyBoolean
                         then truthy (opt options ''livereload'') else True),
           proxy = (if typeof (opt options ''proxy'') = TyBoolean
                    then truthy (opt options ''proxy'') else True),
           lab = (if truthy (opt options ''lab'') then True else False),
           open = (if truthy (opt options ''open'') then True else False),
           browser = (if truthy (opt options ''browser'')
                      then Some (String (opt options ''browser'')) else None),
           browserOption = (if truthy (opt options ''browseroption'')
                            then Some (String (opt options ''browseroption'')) else None),
           basicAuth = (if truthy (opt options ''auth'')
                        then Some (''ionic'', String (opt options ''auth'')) else None),
           env = (if truthy (opt options ''env'') then Some (String (opt options ''env'')) else None),
           devapp = (if typeof (opt options ''devapp'') = TyUndefined \<or> truthy (opt options ''devapp'')
                     then True else False),
           externalAddressRequired =
             (if truthy (opt options ''externalAddressRequired'') then True else False),
           iscordovaserve = (if typeof (opt options ''iscordovaserve'') = TyBoolean
                             then truthy (opt options ''iscordovaserve'') else False) \<rparr>)"

section \<open>Project bootstrap: \<open>isProjectNameValid\<close>\<close>

definition isProjectNameValid :: "string \<Rightarrow> bool" where
  "isProjectNameValid name = (name \<noteq> ''.'')"

section \<open>The serve flow\<close>

subsection \<open>Collaborators\<close>

datatype error =
    FatalException string
  | Thrown string

text \<open>
  \<open>ServeDetails\<close> and the project file are declared in \<open>definitions\<close>; \<open>serve\<close> reads the
  port and the external addresses of the first, the name and the type of the second.
\<close>

record ServeDetails =
  port :: int
  externalAddresses :: "string list"

record ProjectFile =
  name :: string
  type :: string

record IonicAngularServeOptions = ServeOptions +
  platform :: "string option"
  target :: "string option"

record Publisher =
  \<comment> \<open>Modelled from the spec: the class \<open>Publisher\<close> of \<open>@ionic/discover\<close>, whose
      declaration is not among the sources. The spec: a descriptor with a service family
      name, a service instance name, a port and a URL path suffix; constructed from
      (family, instanceName, port), with a mutable \<open>path\<close> field.\<close>
  namespace :: string
  name :: string
  port :: int
  path :: string

definition new_Publisher :: "string \<Rightarrow> string \<Rightarrow> int \<Rightarrow> Publisher" where
  \<comment> \<open>\<open>new Publisher(family, instanceName, port)\<close>; the path the constructor leaves is
      overwritten before any use\<close>
  "new_Publisher ns nm p = \<lparr> namespace = ns, name = nm, port = p, path = [] \<rparr>"

text \<open>
  What \<open>serve\<close> receives in \<open>env\<close>: the hook registry and the project loader. Each call
  either returns or throws.
\<close>

record IonicEnvironment =
  hooks_fire :: "string \<Rightarrow> error + unit"
  project_load :: "error + ProjectFile"

text \<open>
  The modules \<open>serve\<close> imports: \<open>chalk\<close>, the two backend adapters, and the \<open>start\<close>
  method of the discovery publisher.
\<close>

record modules =
  chalk_bold :: "string \<Rightarrow> string"
  ionic1_serve :: "IonicEnvironment \<Rightarrow> ServeOptions \<Rightarrow> error + ServeDetails"
  ionic_angular_serve :: "IonicEnvironment \<Rightarrow> IonicAngularServeOptions \<Rightarrow> error + ServeDetails"
  publisher_start :: "Publisher \<Rightarrow> error + unit"

text \<open>Every call that leaves \<open>serve\<close> is recorded, in order, with its arguments.\<close>

datatype event =
    HooksFire string
  | ProjectLoad
  | Ionic1Serve ServeOptions
  | IonicAngularServe IonicAngularServeOptions
  | PublisherStart Publisher
  | LogOk string
  | Opn string "string option" bool

type_synonym 'a io = "(error + 'a) \<times> event list"

definition returns :: "'a \<Rightarrow> 'a io" where
  "returns x = (Inr x, [])"

definition throw :: "error \<Rightarrow> 'a io" where
  "throw e = (Inl e, [])"

definition call :: "event \<Rightarrow> error + 'a \<Rightarrow> 'a io" where
  \<comment> \<open>a call to a collaborator: it is recorded, and returns or throws\<close>
  "call ev r = (r, [ev])"

definition await :: "'a io \<Rightarrow> ('a \<Rightarrow> 'b io) \<Rightarrow> 'b io" where
  \<comment> \<open>sequencing: a throw ends the flow, keeping what was recorded\<close>
  "await m f =
     (case m of
        (Inl e, t) \<Rightarrow> (Inl e, t)
      | (Inr x, t) \<Rightarrow> (case f x of (r, t') \<Rightarrow> (r, t @ t')))"

definition try_catch :: "unit io \<Rightarrow> unit io" where
  \<comment> \<open>\<open>try { ... } catch (e) { }\<close> with an empty handler\<close>
  "try_catch m = (case m of (Inl e, t) \<Rightarrow> (Inr (), t) | (Inr x, t) \<Rightarrow> (Inr x, t))"

definition first_input :: "CommandLineInputs \<Rightarrow> string option" where
  \<comment> \<open>\<open>const [ platform ] = inputs\<close>: the first input, \<open>undefined\<close> when there is none\<close>
  "first_input inputs = (case inputs of [] \<Rightarrow> None | p # _ \<Rightarrow> Some p)"

definition truthy_str :: "string option \<Rightarrow> bool" where
  \<comment> \<open>the condition \<open>s ? a : b\<close> on a value of type \<open>string | undefined\<close>\<close>
  "truthy_str s = (case s of None \<Rightarrow> False | Some x \<Rightarrow> x \<noteq> [])"

subsection \<open>\<open>serve\<close>\<close>

definition fatal_message :: "modules \<Rightarrow> string \<Rightarrow> string" where
  \<comment> \<open>the message of lines 30 to 32\<close>
  "fatal_message M ty =
     ''Cannot perform Ionic serve/watch for project type: '' @ chalk_bold M ty @ ''.\<newline>'' @
     (if ty = ''custom''
      then ''Since you're using the '' @ chalk_bold M ''custom'' @
           '' project type, this command won't work. The Ionic CLI doesn't know how to serve custom projects.\<newline>\<newline>''
      else []) @
     ''If you'd like the CLI to try to detect your project type, you can unset the '' @
     chalk_bold M ''type'' @ '' attribute in '' @ chalk_bold M ''ionic.config.json'' @ ''.\<newline>''"

definition serve_dispatch ::
  "modules \<Rightarrow> IonicEnvironment \<Rightarrow> ProjectFile \<Rightarrow> string option \<Rightarrow> ServeOptions \<Rightarrow> ServeDetails io" where
  \<comment> \<open>lines 18 to 34\<close>
  "serve_dispatch M ienv project plat serveOptions =
     (if type project = ''ionic1'' then
        call (Ionic1Serve serveOptions) (ionic1_serve M ienv serveOptions)
      else if type project = ''ionic-angular'' then
        (let options = ServeOptions.extend serveOptions
               (IonicAngularServeOptions.fields plat
                  (if iscordovaserve serveOptions then Some ''cordova'' else None))
         in call (IonicAngularServe options) (ionic_angular_serve M ienv options))
      else throw (FatalException (fatal_message M (type project))))"

definition serve_devapp :: "modules \<Rightarrow> ProjectFile \<Rightarrow> ServeOptions \<Rightarrow> unit io" where
  \<comment> \<open>lines 36 to 53; the listener registered for \<open>error\<close> events has an empty body\<close>
  "serve_devapp M project serveOptions =
     (let devAppActive = (\<not> iscordovaserve serveOptions \<and> devapp serveOptions);
          devAppServiceName =
            ProjectFile.name project @ ''@'' @ num2str (ServeOptions.port serveOptions)
      in if devAppActive then
           (let service = new_Publisher ''devapp'' devAppServiceName (ServeOptions.port serveOptions);
                service = service \<lparr> path := ''/?devapp=true'' \<rparr>
            in try_catch (call (PublisherStart service) (publisher_start M service)))
         else returns ())"

definition localAddress :: "ServeDetails \<Rightarrow> string" where
  "localAddress serverDetails = ''http://localhost:'' @ num2str (ServeDetails.port serverDetails)"

definition fmtExternalAddress :: "ServeDetails \<Rightarrow> string \<Rightarrow> string" where
  "fmtExternalAddress serverDetails a =
     ''http://'' @ a @ '':'' @ num2str (ServeDetails.port serverDetails)"

definition serve_report_text :: "modules \<Rightarrow> ServeDetails \<Rightarrow> ServeOptions \<Rightarrow> string" where
  \<comment> \<open>the argument of \<open>env.log.ok\<close>, lines 59 to 62\<close>
  "serve_report_text M serverDetails serveOptions =
     ''Development server running!\<newline>'' @
     ''Local: '' @ chalk_bold M (localAddress serverDetails) @ ''\<newline>'' @
     (if length (externalAddresses serverDetails) > 0
      then ''External: '' @
           join '', '' (map (\<lambda>v. chalk_bold M (fmtExternalAddress serverDetails v))
                           (externalAddresses serverDetails)) @ ''\<newline>''
      else []) @
     (case basicAuth serveOptions of
        Some (u, p) \<Rightarrow> ''Basic Auth: '' @ chalk_bold M u @ '' / '' @ chalk_bold M p
      | None \<Rightarrow> [])"

definition openOptions :: "lib_serve \<Rightarrow> ServeDetails \<Rightarrow> ServeOptions \<Rightarrow> string option \<Rightarrow> string list" where
  \<comment> \<open>lines 68 to 71\<close>
  "openOptions K serverDetails serveOptions plat =
     [localAddress serverDetails]
     @ (if lab serveOptions then [IONIC_LAB_URL K] else [])
     @ (if truthy_str (browserOption serveOptions) then [the (browserOption serveOptions)] else [])
     @ (if truthy_str plat then [''?ionicplatform='', the plat] else [])"

definition serve_open ::
  "lib_serve \<Rightarrow> ProjectFile \<Rightarrow> ServeDetails \<Rightarrow> ServeOptions \<Rightarrow> string option \<Rightarrow> unit io" where
  \<comment> \<open>lines 66 to 76\<close>
  "serve_open K project serverDetails serveOptions plat =
     (if type project \<noteq> ''ionic-angular'' then
        (if open serveOptions then
           call (Opn (join [] (openOptions K serverDetails serveOptions plat))
                     (browser serveOptions) False) (Inr ())
         else returns ())
      else returns ())"

definition serve ::
  "lib_serve \<Rightarrow> modules \<Rightarrow> IonicEnvironment \<Rightarrow> CommandLineInputs \<Rightarrow> CommandLineOptions
     \<Rightarrow> ServeDetails io" where
  "serve K M ienv inputs options =
     await (call (HooksFire ''watch:before'') (hooks_fire ienv ''watch:before'')) (\<lambda>_.
       let plat = first_input inputs;
           serveOptions = cliOptionsToServeOptions K options
       in
       await (call ProjectLoad (project_load ienv)) (\<lambda>project.
       await (serve_dispatch M ienv project plat serveOptions) (\<lambda>serverDetails.
       await (serve_devapp M project serveOptions) (\<lambda>_.
       await (call (LogOk (serve_report_text M serverDetails serveOptions)) (Inr ())) (\<lambda>_.
       await (serve_open K project serverDetails serveOptions plat) (\<lambda>_.
       returns serverDetails))))))"

subsection \<open>Observations on a session\<close>

fun is_adapter_call :: "event \<Rightarrow> bool" where
  "is_adapter_call (Ionic1Serve so) = True"
| "is_adapter_call (IonicAngularServe so) = True"
| "is_adapter_call ev = False"

fun is_publisher_start :: "event \<Rightarrow> bool" where
  "is_publisher_start (PublisherStart s) = True"
| "is_publisher_start ev = False"

fun is_opn :: "event \<Rightarrow> bool" where
  "is_opn (Opn url app wait) = True"
| "is_opn ev = False"


definition claimed_open_url ::
  "lib_serve \<Rightarrow> ServeDetails \<Rightarrow> ServeOptions \<Rightarrow> CommandLineInputs \<Rightarrow> string" where
  \<comment> \<open>The opened URL as the specification words it, for comparison with \<open>openOptions\<close>:
      the local URL, then the lab URL if \<open>lab\<close> is set, then \<open>browserOption\<close> if set, then
      \<open>?ionicplatform=\<close> and the platform name if a platform input was given.\<close>
  "claimed_open_url K d so inputs =
     (''http://localhost:'' @ num2str (ServeDetails.port d))
     @ (if lab so then IONIC_LAB_URL K else [])
     @ (case browserOption so of None \<Rightarrow> [] | Some b \<Rightarrow> b)
     @ (case inputs of [] \<Rightarrow> [] | p # rest \<Rightarrow> ''?ionicplatform='' @ p)"

subsection \<open>A concrete setting\<close>

text \<open>
  One instance of the parameters, for evaluating the flow: illustrative values for the
  constants, a \<open>chalk\<close> that adds no styling, adapters that bind the requested port, and
  a discovery publisher whose \<open>start\<close> always fails.
\<close>

definition demo_constants :: lib_serve where
  "demo_constants =
     \<lparr> BIND_ALL_ADDRESS = ''0.0.0.0'',
       DEFAULT_DEV_LOGGER_PORT = 53703,
       DEFAULT_LIVERELOAD_PORT = 35729,
       DEFAULT_SERVER_PORT = 8100,
       IONIC_LAB_URL = ''/ionic-lab'' \<rparr>"

definition demo_modules :: modules where
  "demo_modules =
     \<lparr> chalk_bold = (\<lambda>s. s),
       ionic1_serve = (\<lambda>ienv so.
         Inr \<lparr> ServeDetails.port = ServeOptions.port so, externalAddresses = [''192.168.1.5''] \<rparr>),
       ionic_angular_serve = (\<lambda>ienv so.
         Inr \<lparr> ServeDetails.port = ServeOptions.port so, externalAddresses = [] \<rparr>),
       publisher_start = (\<lambda>s. Inl (Thrown ''discovery unavailable'')) \<rparr>"

definition demo_env :: "string \<Rightarrow> IonicEnvironment" where
  "demo_env ty =
     \<lparr> hooks_fire = (\<lambda>h. Inr ()),
       project_load = Inr \<lparr> ProjectFile.name = ''app'', type = ty \<rparr> \<rparr>"

section \<open>Properties\<close>

subsection \<open>Sequencing and the segments of \<open>serve\<close>\<close>

lemma await_call_Inr: "await (call ev (Inr x)) f = (fst (f x), ev # snd (f x))"
  by (simp add: await_def call_def split: prod.splits)

lemma await_call_Inl: "await (call ev (Inl e)) f = (Inl e, [ev])"
  by (simp add: await_def call_def)

lemma await_Inr: "m = (Inr x, t) \<Longrightarrow> await m f = (fst (f x), t @ snd (f x))"
  by (simp add: await_def split: prod.splits)

lemma await_Inl: "m = (Inl e, t) \<Longrightarrow> await m f = (Inl e, t)"
  by (simp add: await_def)

lemma serve_devapp_fst: "fst (serve_devapp M project so) = Inr ()"
  by (simp add: serve_devapp_def Let_def try_catch_def call_def returns_def split: sum.splits)

lemma serve_open_fst: "fst (serve_open K project d so plat) = Inr ()"
  by (simp add: serve_open_def call_def returns_def)

lemma serve_success:
  assumes "hooks_fire ienv ''watch:before'' = Inr ()"
    and "project_load ienv = Inr project"
    and "serve_dispatch M ienv project (first_input inputs) (cliOptionsToServeOptions K options) = (Inr d, t)"
  shows "serve K M ienv inputs options =
     (Inr d, [HooksFire ''watch:before'', ProjectLoad] @ t
             @ snd (serve_devapp M project (cliOptionsToServeOptions K options))
             @ [LogOk (serve_report_text M d (cliOptionsToServeOptions K options))]
             @ snd (serve_open K project d (cliOptionsToServeOptions K options) (first_input inputs)))"
proof -
  obtain t1 where d1: "serve_devapp M project (cliOptionsToServeOptions K options) = (Inr (), t1)"
    using serve_devapp_fst by (metis prod.collapse)
  obtain t2 where d2: "serve_open K project d (cliOptionsToServeOptions K options) (first_input inputs) = (Inr (), t2)"
    using serve_open_fst by (metis prod.collapse)
  show ?thesis
    using assms d1 d2
    by (simp add: serve_def Let_def await_call_Inr await_Inr returns_def)
qed

lemma serve_dispatch_fails:
  assumes "hooks_fire ienv ''watch:before'' = Inr ()"
    and "project_load ienv = Inr project"
    and "serve_dispatch M ienv project (first_input inputs) (cliOptionsToServeOptions K options) = (Inl e, t)"
  shows "serve K M ienv inputs options = (Inl e, [HooksFire ''watch:before'', ProjectLoad] @ t)"
  using assms by (simp add: serve_def Let_def await_call_Inr await_Inl)

lemma serve_hook_fails:
  "hooks_fire ienv ''watch:before'' = Inl e \<Longrightarrow>
   serve K M ienv inputs options = (Inl e, [HooksFire ''watch:before''])"
  by (simp add: serve_def await_call_Inl)

lemma serve_load_fails:
  "hooks_fire ienv ''watch:before'' = Inr () \<Longrightarrow> project_load ienv = Inl e \<Longrightarrow>
   serve K M ienv inputs options = (Inl e, [HooksFire ''watch:before'', ProjectLoad])"
  by (simp add: serve_def Let_def await_call_Inr await_call_Inl)


lemma serve_dispatch_trace:
  "snd (serve_dispatch M ienv project plat so) = [] \<or>
   (\<exists>x. snd (serve_dispatch M ienv project plat so) = [Ionic1Serve x]) \<or>
   (\<exists>x. snd (serve_dispatch M ienv project plat so) = [IonicAngularServe x])"
  by (simp add: serve_dispatch_def call_def throw_def Let_def)

lemma serve_dispatch_Inr_iff:
  "fst (serve_dispatch M ienv project plat so) = Inr d \<longleftrightarrow>
     (type project = ''ionic1'' \<and> ionic1_serve M ienv so = Inr d) \<or>
     (type project = ''ionic-angular'' \<and>
      ionic_angular_serve M ienv
        (ServeOptions.extend so
           (IonicAngularServeOptions.fields plat
              (if iscordovaserve so then Some ''cordova'' else None))) = Inr d)"
  by (auto simp add: serve_dispatch_def call_def throw_def Let_def)

lemma serve_dispatch_unsupported:
  "type project \<noteq> ''ionic1'' \<Longrightarrow> type project \<noteq> ''ionic-angular'' \<Longrightarrow>
   serve_dispatch M ienv project plat so = (Inl (FatalException (fatal_message M (type project))), [])"
  by (simp add: serve_dispatch_def throw_def)

lemma serve_devapp_trace:
  "snd (serve_devapp M project so) =
     (if \<not> iscordovaserve so \<and> devapp so
      then [PublisherStart \<lparr> namespace = ''devapp'',
                              name = ProjectFile.name project @ ''@'' @ num2str (ServeOptions.port so),
                              port = ServeOptions.port so,
                              path = ''/?devapp=true'' \<rparr>]
      else [])"
  by (simp add: serve_devapp_def Let_def try_catch_def call_def returns_def new_Publisher_def
           split: sum.splits)

lemma join_openOptions:
  "join [] (openOptions K d so plat) =
     localAddress d
     @ (if lab so then IONIC_LAB_URL K else [])
     @ (case browserOption so of None \<Rightarrow> [] | Some b \<Rightarrow> b)
     @ (case plat of None \<Rightarrow> [] | Some p \<Rightarrow> if p = [] then [] else ''?ionicplatform='' @ p)"
  by (cases "browserOption so"; cases plat) (simp_all add: openOptions_def truthy_str_def)

lemma serve_open_trace:
  "snd (serve_open K project d so plat) =
     (if type project \<noteq> ''ionic-angular'' \<and> open so
      then [Opn (join [] (openOptions K d so plat)) (browser so) False]
      else [])"
  by (simp add: serve_open_def call_def returns_def)

subsection \<open>Option normalisation\<close>

lemma typeof_undefined_iff: "typeof v = TyUndefined \<longleftrightarrow> v = JUndefined"
  by (cases v) simp_all

lemma boolean_default_true:
  "(if typeof v = TyBoolean then truthy v else True) = (v \<noteq> JBool False)"
  by (cases v) simp_all

lemma boolean_default_false:
  "(if typeof v = TyBoolean then truthy v else False) = (v = JBool True)"
  by (cases v) simp_all

text \<open>
  C3. Normalising the empty option mapping gives the bind-all address, the default
  server, live-reload and notification ports, \<open>livereload\<close>, \<open>proxy\<close> and \<open>devapp\<close> true,
  \<open>consolelogs\<close>, \<open>serverlogs\<close>, \<open>lab\<close>, \<open>open\<close>, \<open>externalAddressRequired\<close> and
  \<open>iscordovaserve\<close> false, and \<open>basicAuth\<close>, \<open>browser\<close>, \<open>browserOption\<close> and \<open>env\<close>
  absent. The three ports rest on \<open>str2num\<close> returning its default for \<open>undefined\<close>.
\<close>

theorem normalize_empty:
  "cliOptionsToServeOptions K Map.empty =
     \<lparr> address = BIND_ALL_ADDRESS K,
       port = DEFAULT_SERVER_PORT K,
       livereloadPort = DEFAULT_LIVERELOAD_PORT K,
       notificationPort = DEFAULT_DEV_LOGGER_PORT K,
       consolelogs = False,
       serverlogs = False,
       livereload = True,
       proxy = True,
       lab = False,
       open = False,
       browser = None,
       browserOption = None,
       basicAuth = None,
       env = None,
       devapp = True,
       externalAddressRequired = False,
       iscordovaserve = False \<rparr>"
  by (simp add: cliOptionsToServeOptions_def opt_def str2num_def)

text \<open>
  C6. For every raw option mapping, normalisation returns a configuration (no branch of
  it throws), and each of its nine boolean fields is a definite truth value fixed by the
  raw value, whatever its kind: \<open>consolelogs\<close>, \<open>serverlogs\<close>, \<open>lab\<close>, \<open>open\<close> and
  \<open>externalAddressRequired\<close> are the truthiness of the raw value; \<open>livereload\<close> and
  \<open>proxy\<close> are false only for the boolean \<open>false\<close>; \<open>devapp\<close> is true for an absent or
  a truthy value; \<open>iscordovaserve\<close> is true only for the boolean \<open>true\<close>.
\<close>

theorem normalize_booleans:
  "consolelogs (cliOptionsToServeOptions K options) = truthy (opt options ''consolelogs'')
   \<and> serverlogs (cliOptionsToServeOptions K options) = truthy (opt options ''serverlogs'')
   \<and> livereload (cliOptionsToServeOptions K options) = (opt options ''livereload'' \<noteq> JBool False)
   \<and> proxy (cliOptionsToServeOptions K options) = (opt options ''proxy'' \<noteq> JBool False)
   \<and> lab (cliOptionsToServeOptions K options) = truthy (opt options ''lab'')
   \<and> open (cliOptionsToServeOptions K options) = truthy (opt options ''open'')
   \<and> devapp (cliOptionsToServeOptions K options)
        = (opt options ''devapp'' = JUndefined \<or> truthy (opt options ''devapp''))
   \<and> externalAddressRequired (cliOptionsToServeOptions K options)
        = truthy (opt options ''externalAddressRequired'')
   \<and> iscordovaserve (cliOptionsToServeOptions K options)
        = (opt options ''iscordovaserve'' = JBool True)"
  by (simp add: cliOptionsToServeOptions_def boolean_default_true boolean_default_false
        typeof_undefined_iff)

text \<open>
  C7, as stated: whenever an \<open>auth\<close> value is present, \<open>basicAuth\<close> is the pair of the
  fixed user name and the value as a string. This fails for a value that is present but
  falsy: with \<open>auth\<close> the empty string (what \<open>--auth\<close> without a value leaves) or the
  boolean \<open>false\<close>, \<open>basicAuth\<close> is absent, not the pair of \<open>ionic\<close> and the value as a
  string.
\<close>

theorem basicAuth_empty_string_counterexample:
  "basicAuth (cliOptionsToServeOptions demo_constants [''auth'' \<mapsto> JStr []]) = None
   \<and> basicAuth (cliOptionsToServeOptions demo_constants [''auth'' \<mapsto> JStr []])
       \<noteq> Some (''ionic'', String (JStr []))
   \<and> basicAuth (cliOptionsToServeOptions demo_constants [''auth'' \<mapsto> JBool False]) = None
   \<and> basicAuth (cliOptionsToServeOptions demo_constants [''auth'' \<mapsto> JBool False])
       \<noteq> Some (''ionic'', String (JBool False))"
  by (simp add: cliOptionsToServeOptions_def opt_def)

text \<open>
  C7, amended: \<open>basicAuth\<close> is the pair of \<open>ionic\<close> and \<open>String(auth)\<close> exactly when the
  \<open>auth\<close> value is truthy (a non-empty string, \<open>true\<close>, or an array); when \<open>auth\<close> is
  absent or falsy (\<open>undefined\<close>, \<open>null\<close>, \<open>false\<close>, the empty string), \<open>basicAuth\<close> is
  absent.
\<close>

theorem basicAuth_by_value:
  "basicAuth (cliOptionsToServeOptions K options) =
     (case options ''auth'' of
        None \<Rightarrow> None
      | Some JUndefined \<Rightarrow> None
      | Some JNull \<Rightarrow> None
      | Some (JBool b) \<Rightarrow> if b then Some (''ionic'', ''true'') else None
      | Some (JStr s) \<Rightarrow> if s = [] then None else Some (''ionic'', s)
      | Some (JArr xs) \<Rightarrow> Some (''ionic'', join '','' xs))"
  by (simp add: cliOptionsToServeOptions_def opt_def split: option.splits CommandLineInput.splits)

subsection \<open>Project names\<close>

text \<open>
  C10. \<open>isProjectNameValid\<close> accepts a name if and only if it is not the one-character
  string \<open>.\<close>; the empty string, \<open>..\<close> and names with path separators are accepted.
\<close>

theorem isProjectNameValid_iff:
  "(isProjectNameValid nm \<longleftrightarrow> nm \<noteq> ''.'')
   \<and> \<not> isProjectNameValid ''.''
   \<and> isProjectNameValid []
   \<and> isProjectNameValid ''..''
   \<and> isProjectNameValid ''../etc/app''"
  by (simp add: isProjectNameValid_def)

subsection \<open>The sessions of \<open>serve\<close>\<close>

lemma serve_dispatch_no_publisher:
  "filter is_publisher_start (snd (serve_dispatch M ienv project plat so)) = []"
  using serve_dispatch_trace [of M ienv project plat so] by auto

lemma serve_dispatch_no_opn:
  "filter is_opn (snd (serve_dispatch M ienv project plat so)) = []"
  using serve_dispatch_trace [of M ienv project plat so] by auto


text \<open>
  A session ends in one of four ways: the hook throws, the project loader throws, the
  dispatch throws (the adapter failed or the project type has no adapter), or the adapter
  returns and the flow runs to its end.
\<close>

lemma serve_cases:
  obtains (hook_fails) e where "hooks_fire ienv ''watch:before'' = Inl e"
      and "serve K M ienv inputs options = (Inl e, [HooksFire ''watch:before''])"
  | (load_fails) e where "hooks_fire ienv ''watch:before'' = Inr ()"
      and "project_load ienv = Inl e"
      and "serve K M ienv inputs options = (Inl e, [HooksFire ''watch:before'', ProjectLoad])"
  | (dispatch_fails) project e where "hooks_fire ienv ''watch:before'' = Inr ()"
      and "project_load ienv = Inr project"
      and "fst (serve_dispatch M ienv project (first_input inputs)
                  (cliOptionsToServeOptions K options)) = Inl e"
      and "serve K M ienv inputs options =
             (Inl e, [HooksFire ''watch:before'', ProjectLoad]
                     @ snd (serve_dispatch M ienv project (first_input inputs)
                              (cliOptionsToServeOptions K options)))"
  | (success) project d where "hooks_fire ienv ''watch:before'' = Inr ()"
      and "project_load ienv = Inr project"
      and "fst (serve_dispatch M ienv project (first_input inputs)
                  (cliOptionsToServeOptions K options)) = Inr d"
      and "serve K M ienv inputs options =
             (Inr d, [HooksFire ''watch:before'', ProjectLoad]
                     @ snd (serve_dispatch M ienv project (first_input inputs)
                              (cliOptionsToServeOptions K options))
                     @ snd (serve_devapp M project (cliOptionsToServeOptions K options))
                     @ [LogOk (serve_report_text M d (cliOptionsToServeOptions K options))]
                     @ snd (serve_open K project d (cliOptionsToServeOptions K options)
                              (first_input inputs)))"
proof (cases "hooks_fire ienv ''watch:before''")
  case (Inl e)
  then show ?thesis using hook_fails serve_hook_fails by blast
next
  case (Inr u)
  then have h: "hooks_fire ienv ''watch:before'' = Inr ()" by simp
  show ?thesis
  proof (cases "project_load ienv")
    case (Inl e)
    then show ?thesis using load_fails h serve_load_fails by blast
  next
    case (Inr project)
    note l = this
    obtain r t where rt: "serve_dispatch M ienv project (first_input inputs)
                  (cliOptionsToServeOptions K options) = (r, t)"
      by (cases "serve_dispatch M ienv project (first_input inputs)
                  (cliOptionsToServeOptions K options)")
    show ?thesis
    proof (cases r)
      case (Inl e)
      with rt show ?thesis
        using dispatch_fails [OF h l, of e] serve_dispatch_fails [OF h l, of M inputs K options e t]
        by simp
    next
      case (Inr d)
      with rt show ?thesis
        using success [OF h l, of d] serve_success [OF h l, of M inputs K options d t]
        by simp
    qed
  qed
qed

subsection \<open>The concrete setting, evaluated\<close>

lemmas flow_defs =
  serve_def await_def call_def returns_def throw_def try_catch_def serve_dispatch_def
  serve_devapp_def serve_open_def serve_report_text_def openOptions_def localAddress_def
  fmtExternalAddress_def cliOptionsToServeOptions_def opt_def str2num_def first_input_def
  truthy_str_def new_Publisher_def Let_def

lemmas demo_defs = demo_constants_def demo_modules_def demo_env_def

lemma num2str_8100: "num2str 8100 = ''8100''"
  by (simp add: num2str_def show_nat.simps digit_def)

lemma demo_hook: "hooks_fire (demo_env ty) ''watch:before'' = Inr ()"
  by (simp add: demo_env_def)

lemma demo_load:
  "project_load (demo_env ty) = Inr \<lparr> ProjectFile.name = ''app'', type = ty \<rparr>"
  by (simp add: demo_env_def)

lemma demo_dispatch_ionic1:
  "fst (serve_dispatch demo_modules (demo_env ''ionic1'')
          \<lparr> ProjectFile.name = ''app'', type = ''ionic1'' \<rparr> plat so)
     = Inr \<lparr> ServeDetails.port = ServeOptions.port so, externalAddresses = [''192.168.1.5''] \<rparr>"
  by (simp add: serve_dispatch_def call_def demo_modules_def)

lemma demo_dispatch_angular:
  "fst (serve_dispatch demo_modules (demo_env ''ionic-angular'')
          \<lparr> ProjectFile.name = ''app'', type = ''ionic-angular'' \<rparr> plat so)
     = Inr \<lparr> ServeDetails.port = ServeOptions.port so, externalAddresses = [] \<rparr>"
  by (simp add: serve_dispatch_def call_def demo_modules_def Let_def ServeOptions.defs)

lemma demo_port_default:
  "ServeOptions.port (cliOptionsToServeOptions demo_constants Map.empty) = 8100"
  by (simp add: cliOptionsToServeOptions_def opt_def str2num_def demo_constants_def)

subsection \<open>Dispatch on the project type\<close>

lemma sublist_fatal_message: "sublist (chalk_bold M ty) (fatal_message M ty)"
  unfolding fatal_message_def by (rule sublist_appendI)

text \<open>
  C1. When the loaded project type is neither \<open>ionic1\<close> nor \<open>ionic-angular\<close> (the type
  \<open>custom\<close> included), \<open>serve\<close> throws a \<open>FatalException\<close> whose message contains the
  type as \<open>chalk.bold\<close> renders it, and the session holds no call to a backend adapter.
\<close>

theorem unsupported_type_is_fatal:
  assumes "hooks_fire ienv ''watch:before'' = Inr ()"
    and "project_load ienv = Inr project"
    and "type project \<noteq> ''ionic1''"
    and "type project \<noteq> ''ionic-angular''"
  shows "fst (serve K M ienv inputs options) = Inl (FatalException (fatal_message M (type project)))
       \<and> sublist (chalk_bold M (type project)) (fatal_message M (type project))
       \<and> filter is_adapter_call (snd (serve K M ienv inputs options)) = []"
  using assms
    serve_dispatch_fails [OF assms(1,2) serve_dispatch_unsupported [OF assms(3,4)],
      where K = K and options = options]
  by (simp add: sublist_fatal_message)

text \<open>The \<open>custom\<close> project of the concrete setting: the message in full, and no adapter.\<close>

theorem unsupported_type_is_fatal_witness:
  "fst (serve demo_constants demo_modules (demo_env ''custom'') [] Map.empty)
     = Inl (FatalException
        (''Cannot perform Ionic serve/watch for project type: custom.\<newline>'' @
         ''Since you're using the custom project type, this command won't work. The Ionic CLI doesn't know how to serve custom projects.\<newline>\<newline>'' @
         ''If you'd like the CLI to try to detect your project type, you can unset the type attribute in ionic.config.json.\<newline>''))
   \<and> sublist (chalk_bold demo_modules ''custom'') (fatal_message demo_modules ''custom'')
   \<and> filter is_adapter_call
        (snd (serve demo_constants demo_modules (demo_env ''custom'') [] Map.empty)) = []"
  using unsupported_type_is_fatal [where ienv = "demo_env ''custom''"
      and project = "\<lparr> ProjectFile.name = ''app'', type = ''custom'' \<rparr>"
      and K = demo_constants and M = demo_modules and inputs = "[]" and options = Map.empty]
  by (simp add: demo_env_def demo_modules_def fatal_message_def)

subsection \<open>The discovery announcer\<close>

text \<open>
  C2. In a session whose backend adapter returned, the discovery publisher is started
  if and only if the normalised \<open>devapp\<close> is true and the normalised \<open>iscordovaserve\<close> is
  false; and whatever \<open>start\<close> does, a throw included, \<open>serve\<close> returns the adapter's
  \<open>ServeDetails\<close>.
\<close>

theorem discovery_started_iff:
  assumes "hooks_fire ienv ''watch:before'' = Inr ()"
    and "project_load ienv = Inr project"
    and "fst (serve_dispatch M ienv project (first_input inputs)
               (cliOptionsToServeOptions K options)) = Inr d"
  shows "((\<exists>s. PublisherStart s \<in> set (snd (serve K M ienv inputs options)))
            \<longleftrightarrow> devapp (cliOptionsToServeOptions K options)
                \<and> \<not> iscordovaserve (cliOptionsToServeOptions K options))
       \<and> fst (serve K M ienv inputs options) = Inr d"
proof -
  obtain t where t: "serve_dispatch M ienv project (first_input inputs)
               (cliOptionsToServeOptions K options) = (Inr d, t)"
    using assms(3) by (metis prod.collapse)
  have nt: "\<And>s. PublisherStart s \<notin> set t"
    using serve_dispatch_trace [of M ienv project "first_input inputs"
        "cliOptionsToServeOptions K options"] t by auto
  show ?thesis
    using nt
    by (auto simp add: serve_success [OF assms(1,2) t] serve_devapp_trace serve_open_trace)
qed

text \<open>
  In the concrete setting \<open>start\<close> always throws. With no options the publisher is
  started and \<open>serve\<close> still returns the details; with \<open>iscordovaserve\<close> set it is not
  started.
\<close>

theorem discovery_started_iff_witness:
  "(\<exists>s. PublisherStart s \<in> set (snd (serve demo_constants demo_modules (demo_env ''ionic1'') []
                                         Map.empty)))
   \<and> publisher_start demo_modules
        \<lparr> namespace = ''devapp'', name = ''app@8100'', port = 8100, path = ''/?devapp=true'' \<rparr>
       = Inl (Thrown ''discovery unavailable'')
   \<and> fst (serve demo_constants demo_modules (demo_env ''ionic1'') [] Map.empty)
       = Inr \<lparr> ServeDetails.port = 8100, externalAddresses = [''192.168.1.5''] \<rparr>
   \<and> \<not> (\<exists>s. PublisherStart s \<in> set (snd (serve demo_constants demo_modules
                                             (demo_env ''ionic-angular'') []
                                             [''iscordovaserve'' \<mapsto> JBool True])))"
proof -
  have a: "fst (serve_dispatch demo_modules (demo_env ''ionic1'')
          \<lparr> ProjectFile.name = ''app'', type = ''ionic1'' \<rparr> (first_input [])
          (cliOptionsToServeOptions demo_constants Map.empty))
     = Inr \<lparr> ServeDetails.port = 8100, externalAddresses = [''192.168.1.5''] \<rparr>"
    by (simp add: demo_dispatch_ionic1 demo_port_default)
  have b: "fst (serve_dispatch demo_modules (demo_env ''ionic-angular'')
          \<lparr> ProjectFile.name = ''app'', type = ''ionic-angular'' \<rparr> (first_input [])
          (cliOptionsToServeOptions demo_constants [''iscordovaserve'' \<mapsto> JBool True]))
     = Inr \<lparr> ServeDetails.port = 8100, externalAddresses = [] \<rparr>"
    by (simp add: demo_dispatch_angular)
       (simp add: cliOptionsToServeOptions_def opt_def str2num_def demo_constants_def)
  show ?thesis
    using discovery_started_iff [OF demo_hook demo_load a]
      discovery_started_iff [OF demo_hook demo_load b]
    by (simp add: cliOptionsToServeOptions_def opt_def demo_modules_def)
qed



subsection \<open>The returned value\<close>

text \<open>
  C9. \<open>serve\<close> returns a \<open>ServeDetails\<close> value exactly when the hook and the project
  loader return and the adapter of the project's type returns that value: what a
  successful session returns is the adapter's value, with its port and its external
  addresses as the adapter gave them.
\<close>

theorem serve_returns_adapter_details:
  "fst (serve K M ienv inputs options) = Inr d \<longleftrightarrow>
     hooks_fire ienv ''watch:before'' = Inr () \<and>
     (\<exists>project. project_load ienv = Inr project \<and>
        (type project = ''ionic1'' \<and>
           ionic1_serve M ienv (cliOptionsToServeOptions K options) = Inr d
         \<or> type project = ''ionic-angular'' \<and>
           ionic_angular_serve M ienv
             (ServeOptions.extend (cliOptionsToServeOptions K options)
                (IonicAngularServeOptions.fields (first_input inputs)
                   (if iscordovaserve (cliOptionsToServeOptions K options)
                    then Some ''cordova'' else None))) = Inr d))"
proof (cases rule: serve_cases [of ienv K M inputs options])
  case (hook_fails e)
  then show ?thesis by simp
next
  case (load_fails e)
  then show ?thesis by simp
next
  case (dispatch_fails p e)
  then show ?thesis
    using serve_dispatch_Inr_iff [of M ienv p "first_input inputs"
        "cliOptionsToServeOptions K options" d]
    by auto
next
  case (success p d')
  then show ?thesis
    using serve_dispatch_Inr_iff [of M ienv p "first_input inputs"
        "cliOptionsToServeOptions K options" d]
    by auto
qed

text \<open>A successful session of the concrete setting returns what its adapter returned.\<close>

theorem serve_returns_adapter_details_witness:
  "fst (serve demo_constants demo_modules (demo_env ''ionic1'') [] Map.empty)
     = Inr \<lparr> ServeDetails.port = 8100, externalAddresses = [''192.168.1.5''] \<rparr>
   \<and> ionic1_serve demo_modules (demo_env ''ionic1'')
        (cliOptionsToServeOptions demo_constants Map.empty)
     = Inr \<lparr> ServeDetails.port = 8100, externalAddresses = [''192.168.1.5''] \<rparr>"
proof -
  have a: "ionic1_serve demo_modules (demo_env ''ionic1'')
        (cliOptionsToServeOptions demo_constants Map.empty)
     = Inr \<lparr> ServeDetails.port = 8100, externalAddresses = [''192.168.1.5''] \<rparr>"
    by (simp add: demo_modules_def demo_port_default)
  have "fst (serve demo_constants demo_modules (demo_env ''ionic1'') [] Map.empty)
     = Inr \<lparr> ServeDetails.port = 8100, externalAddresses = [''192.168.1.5''] \<rparr>"
    unfolding serve_returns_adapter_details
    using a demo_hook [of "''ionic1''"] demo_load [of "''ionic1''"] by simp
  with a show ?thesis by simp
qed

subsection \<open>The report\<close>










subsection \<open>Opening the browser\<close>

text \<open>
  C4, as stated: the opened URL is the local URL, the lab URL if \<open>lab\<close> is set,
  \<open>browserOption\<close> if set, and \<open>?ionicplatform=\<close> with the platform name if a platform
  input was given. This fails when the platform input is the empty string: the code
  tests the platform for truthiness and opens the local URL alone, where the statement
  gives the local URL followed by \<open>?ionicplatform=\<close>.
\<close>

theorem open_url_empty_platform_counterexample:
  "filter is_opn (snd (serve demo_constants demo_modules (demo_env ''ionic1'') ['''']
                         [''open'' \<mapsto> JBool True]))
     = [Opn ''http://localhost:8100'' None False]
   \<and> claimed_open_url demo_constants
        \<lparr> ServeDetails.port = 8100, externalAddresses = [''192.168.1.5''] \<rparr>
        (cliOptionsToServeOptions demo_constants [''open'' \<mapsto> JBool True]) ['''']
     = ''http://localhost:8100?ionicplatform=''"
  by (simp add: flow_defs demo_defs claimed_open_url_def num2str_8100)

text \<open>
  C4, amended: in every session the browser launcher is called at most once, with the
  normalised \<open>browser\<close> as the application and wait-for-exit disabled. In a session whose
  adapter returned, with \<open>open\<close> true and a project type other than \<open>ionic-angular\<close>, the
  opened URL is the concatenation, with nothing in between, of the local URL, the lab
  URL constant if \<open>lab\<close> is set, the \<open>browserOption\<close> string if set, and \<open>?ionicplatform=\<close>
  followed by the platform name if a non-empty platform input was given.
\<close>

theorem browser_open_url:
  "(filter is_opn (snd (serve K M ienv inputs options)) = []
     \<or> (\<exists>url. filter is_opn (snd (serve K M ienv inputs options))
                 = [Opn url (browser (cliOptionsToServeOptions K options)) False]))
   \<and> (hooks_fire ienv ''watch:before'' = Inr ()
      \<and> project_load ienv = Inr project
      \<and> fst (serve_dispatch M ienv project (first_input inputs)
                (cliOptionsToServeOptions K options)) = Inr d
      \<and> open (cliOptionsToServeOptions K options)
      \<and> type project \<noteq> ''ionic-angular''
      \<longrightarrow> filter is_opn (snd (serve K M ienv inputs options))
            = [Opn ((''http://localhost:'' @ num2str (ServeDetails.port d))
                    @ (if lab (cliOptionsToServeOptions K options) then IONIC_LAB_URL K else [])
                    @ (case browserOption (cliOptionsToServeOptions K options) of
                         None \<Rightarrow> [] | Some b \<Rightarrow> b)
                    @ (case inputs of
                         [] \<Rightarrow> []
                       | p # rest \<Rightarrow> if p = [] then [] else ''?ionicplatform='' @ p))
                   (browser (cliOptionsToServeOptions K options)) False])"
proof (intro conjI impI)
  show "filter is_opn (snd (serve K M ienv inputs options)) = []
     \<or> (\<exists>url. filter is_opn (snd (serve K M ienv inputs options))
                 = [Opn url (browser (cliOptionsToServeOptions K options)) False])"
  proof (cases rule: serve_cases [of ienv K M inputs options])
    case (hook_fails e)
    then show ?thesis by simp
  next
    case (load_fails e)
    then show ?thesis by simp
  next
    case (dispatch_fails p e)
    then show ?thesis by (simp add: serve_dispatch_no_opn)
  next
    case (success p d')
    then show ?thesis
      by (simp add: serve_dispatch_no_opn serve_devapp_trace serve_open_trace)
  qed
next
  assume a: "hooks_fire ienv ''watch:before'' = Inr ()
      \<and> project_load ienv = Inr project
      \<and> fst (serve_dispatch M ienv project (first_input inputs)
                (cliOptionsToServeOptions K options)) = Inr d
      \<and> open (cliOptionsToServeOptions K options)
      \<and> type project \<noteq> ''ionic-angular''"
  then obtain t where t: "serve_dispatch M ienv project (first_input inputs)
               (cliOptionsToServeOptions K options) = (Inr d, t)"
    by (metis prod.collapse)
  have nt: "filter is_opn t = []"
    using serve_dispatch_no_opn [of M ienv project "first_input inputs"
        "cliOptionsToServeOptions K options"] t by simp
  from a have h: "hooks_fire ienv ''watch:before'' = Inr ()"
    and l: "project_load ienv = Inr project" by simp_all
  show "filter is_opn (snd (serve K M ienv inputs options))
            = [Opn ((''http://localhost:'' @ num2str (ServeDetails.port d))
                    @ (if lab (cliOptionsToServeOptions K options) then IONIC_LAB_URL K else [])
                    @ (case browserOption (cliOptionsToServeOptions K options) of
                         None \<Rightarrow> [] | Some b \<Rightarrow> b)
                    @ (case inputs of
                         [] \<Rightarrow> []
                       | p # rest \<Rightarrow> if p = [] then [] else ''?ionicplatform='' @ p))
                   (browser (cliOptionsToServeOptions K options)) False]"
    using a nt
    by (simp add: serve_success [OF h l t] serve_devapp_trace serve_open_trace join_openOptions
          localAddress_def first_input_def split: list.splits)
qed

text \<open>
  The example of the specification: \<open>lab\<close>, the browser option \<open>--incognito\<close> and the
  platform \<open>ios\<close> on port 8100.
\<close>

theorem browser_open_url_witness:
  "filter is_opn (snd (serve demo_constants demo_modules (demo_env ''ionic1'') [''ios'']
         [''open'' \<mapsto> JBool True, ''lab'' \<mapsto> JBool True,
          ''browseroption'' \<mapsto> JStr ''--incognito'']))
     = [Opn (''http://localhost:8100'' @ ''/ionic-lab'' @ ''--incognito'' @ ''?ionicplatform=ios'')
            None False]"
proof -
  let ?options = "[''open'' \<mapsto> JBool True, ''lab'' \<mapsto> JBool True,
          ''browseroption'' \<mapsto> JStr ''--incognito'']"
  let ?d = "\<lparr> ServeDetails.port = 8100, externalAddresses = [''192.168.1.5''] \<rparr>"
  let ?p = "\<lparr> ProjectFile.name = ''app'', type = ''ionic1'' \<rparr>"
  have h: "hooks_fire (demo_env ''ionic1'') ''watch:before'' = Inr ()
      \<and> project_load (demo_env ''ionic1'') = Inr ?p
      \<and> fst (serve_dispatch demo_modules (demo_env ''ionic1'') ?p (first_input [''ios''])
                (cliOptionsToServeOptions demo_constants ?options)) = Inr ?d
      \<and> open (cliOptionsToServeOptions demo_constants ?options)
      \<and> type ?p \<noteq> ''ionic-angular''"
    by (simp add: flow_defs demo_defs)
  from browser_open_url [where K = demo_constants and M = demo_modules
      and ienv = "demo_env ''ionic1''" and inputs = "[''ios'']" and options = ?options
      and project = ?p and d = ?d] h
  have "filter is_opn (snd (serve demo_constants demo_modules (demo_env ''ionic1'') [''ios'']
         ?options))
     = [Opn ((''http://localhost:'' @ num2str (ServeDetails.port ?d))
                    @ (if lab (cliOptionsToServeOptions demo_constants ?options)
                       then IONIC_LAB_URL demo_constants else [])
                    @ (case browserOption (cliOptionsToServeOptions demo_constants ?options) of
                         None \<Rightarrow> [] | Some b \<Rightarrow> b)
                    @ (case [''ios''] of
                         [] \<Rightarrow> []
                       | p # rest \<Rightarrow> if p = [] then [] else ''?ionicplatform='' @ p))
                   (browser (cliOptionsToServeOptions demo_constants ?options)) False]"
    by blast
  then show ?thesis
    by (simp add: cliOptionsToServeOptions_def opt_def demo_constants_def num2str_8100)
qed

end
